theory Spec2Isabelle
  imports Complex_Main
begin

section \<open>The query engine's result cache (class LRUCache)\<close>

text \<open>
  The Python class keeps an \<open>OrderedDict\<close>: a dictionary that remembers the order in
  which keys were inserted or last moved to the end.  It is modelled as an association
  list whose head is the oldest entry and whose last element is the most recently used
  one.  The capacity is a Python \<open>int\<close>.
\<close>

record ('k, 'v) lru_cache =
  capacity :: int
  entries :: "('k \<times> 'v) list"

definition lru_new :: "int \<Rightarrow> ('k, 'v) lru_cache" where
  "lru_new c = \<lparr>capacity = c, entries = []\<rparr>"

definition keys_of :: "('k \<times> 'v) list \<Rightarrow> 'k list" where
  "keys_of es = map fst es"

text \<open>\<open>OrderedDict.move_to_end(key)\<close> for a key that is present.\<close>

definition move_to_end :: "'k \<Rightarrow> ('k \<times> 'v) list \<Rightarrow> ('k \<times> 'v) list" where
  "move_to_end k es =
     (case map_of es k of
        None \<Rightarrow> es
      | Some v \<Rightarrow> filter (\<lambda>p. fst p \<noteq> k) es @ [(k, v)])"

text \<open>\<open>d[key] = value\<close>: an existing key keeps its position, a new key goes last.\<close>

definition setitem :: "'k \<Rightarrow> 'v \<Rightarrow> ('k \<times> 'v) list \<Rightarrow> ('k \<times> 'v) list" where
  "setitem k v es =
     (if k \<in> set (keys_of es)
      then map (\<lambda>p. if fst p = k then (k, v) else p) es
      else es @ [(k, v)])"

text \<open>\<open>popitem(last=False)\<close> drops the oldest entry; it is only called on a non-empty dictionary.\<close>

definition popitem_first :: "('k \<times> 'v) list \<Rightarrow> ('k \<times> 'v) list" where
  "popitem_first es = (case es of [] \<Rightarrow> [] | _ # rest \<Rightarrow> rest)"

text \<open>
  \<open>LRUCache.get\<close>: the value (or \<open>None\<close>) and the cache afterwards.
\<close>

definition lru_get :: "('k, 'v) lru_cache \<Rightarrow> 'k \<Rightarrow> 'v option \<times> ('k, 'v) lru_cache" where
  "lru_get c k =
     (if k \<notin> set (keys_of (entries c)) then (None, c)
      else (let es = move_to_end k (entries c)
            in (map_of es k, c\<lparr>entries := es\<rparr>)))"

text \<open>\<open>LRUCache.set\<close>.\<close>

definition lru_set :: "('k, 'v) lru_cache \<Rightarrow> 'k \<Rightarrow> 'v \<Rightarrow> ('k, 'v) lru_cache" where
  "lru_set c k v =
     (let es1 = (if k \<in> set (keys_of (entries c)) then move_to_end k (entries c) else entries c);
          es2 = setitem k v es1;
          es3 = (if int (length es2) > capacity c then popitem_first es2 else es2)
      in c\<lparr>entries := es3\<rparr>)"

text \<open>Inserting a list of keys one after the other, with no \<open>get\<close> in between.\<close>

fun set_all :: "('k, 'v) lru_cache \<Rightarrow> ('k \<times> 'v) list \<Rightarrow> ('k, 'v) lru_cache" where
  "set_all c [] = c"
| "set_all c ((k, v) # kvs) = set_all (lru_set c k v) kvs"

subsection \<open>Eviction order\<close>


lemma keys_move_to_end:
  "k \<in> set (keys_of es) \<Longrightarrow> keys_of (move_to_end k es) = filter (\<lambda>x. x \<noteq> k) (keys_of es) @ [k]"
proof -
  assume "k \<in> set (keys_of es)"
  then obtain v where "map_of es k = Some v"
    by (metis keys_of_def map_of_eq_None_iff not_Some_eq set_map)
  then show ?thesis
    by (simp add: move_to_end_def keys_of_def filter_map comp_def)
qed

lemma keys_setitem:
  "keys_of (setitem k v es) = (if k \<in> set (keys_of es) then keys_of es else keys_of es @ [k])"
  by (induction es) (auto simp: setitem_def keys_of_def)


lemma length_keys_of: "length (keys_of es) = length es"
  by (simp add: keys_of_def)



lemma capacity_lru_set [simp]: "capacity (lru_set c k v) = capacity c"
  by (simp add: lru_set_def Let_def)

lemma capacity_set_all [simp]: "capacity (set_all c kvs) = capacity c"
  by (induction c kvs rule: set_all.induct) simp_all







lemma capacity_lru_get [simp]: "capacity (snd (lru_get c k)) = capacity c"
  by (simp add: lru_get_def Let_def)

lemma lru_get_value:
  "k \<in> set (keys_of (entries c)) \<Longrightarrow> fst (lru_get c k) = map_of (entries c) k"
proof -
  assume a: "k \<in> set (keys_of (entries c))"
  then obtain v where v: "map_of (entries c) k = Some v"
    by (metis keys_of_def map_of_eq_None_iff not_Some_eq set_map)
  have "map_of (filter (\<lambda>p. fst p \<noteq> k) (entries c)) k = None"
    by (simp add: map_of_eq_None_iff image_iff)
  then show ?thesis using a v
    by (simp add: lru_get_def Let_def move_to_end_def map_add_def)
qed





section \<open>Metrics (the \<open>_metrics\<close> dictionary, \<open>_record_time\<close>, \<open>get_metrics\<close>)\<close>

text \<open>
  The module keeps one dictionary with a fixed set of keys; it is modelled as a record.
  Execution ts are Python floats, modelled as reals: the rounding of float addition
  and division is not part of the model.
\<close>

record metrics =
  total_queries :: int
  cache_hits :: int
  cache_misses :: int
  exec_times :: "real list"
  active_queries :: int
  active_connections :: int

definition metrics_init :: metrics where
  "metrics_init = \<lparr>total_queries = 0, cache_hits = 0, cache_misses = 0, exec_times = [],
     active_queries = 0, active_connections = 0\<rparr>"

text \<open>\<open>del xs[:-n]\<close> for a positive \<open>n\<close>: only the last \<open>n\<close> elements stay.\<close>

definition keep_last :: "nat \<Rightarrow> 'a list \<Rightarrow> 'a list" where
  "keep_last n xs = drop (length xs - n) xs"

definition record_time :: "real \<Rightarrow> metrics \<Rightarrow> metrics" where
  "record_time elapsed m =
     (let ts = exec_times m @ [elapsed]
      in m\<lparr>exec_times := (if length ts > 500 then keep_last 500 ts else ts)\<rparr>)"

text \<open>
  \<open>int(0.95 * len(s))\<close>: the product is an IEEE double, truncated towards zero.  For
  every length the window can have (at most 500) the result is \<open>\<lfloor>95 n / 100\<rfloor>\<close>; where
  \<open>95 n / 100\<close> is an integer the double product rounds to that integer.
\<close>

definition int_095 :: "nat \<Rightarrow> int" where
  "int_095 n = (95 * int n) div 100"

definition avg_of :: "real list \<Rightarrow> real" where
  "avg_of ts = (if ts \<noteq> [] then sum_list ts / real (length ts) else 0)"

definition p95_of :: "real list \<Rightarrow> real" where
  "p95_of ts =
     (if ts \<noteq> []
      then (let s = sort ts in s ! nat (min (int (length s) - 1) (int_095 (length s))))
      else 0)"

record metrics_snapshot =
  snap_total_queries :: int
  snap_cache_hits :: int
  snap_cache_misses :: int
  snap_active_queries :: int
  snap_active_connections :: int
  avg_exec_sec :: real
  p95_exec_sec :: real
  recent_exec_times :: "real list"
  indexed_documents :: int
  indexed_chunks :: int

text \<open>
  \<open>get_metrics\<close>.  The second argument stands for the ingestion database: \<open>None\<close> when
  the file does not exist, otherwise the row counts of its two tables.
\<close>

definition get_metrics :: "metrics \<Rightarrow> (int \<times> int) option \<Rightarrow> metrics_snapshot" where
  "get_metrics m ingest =
     (let ts = exec_times m;
          avg = avg_of ts;
          p95 = p95_of ts;
          docs = (case ingest of None \<Rightarrow> 0 | Some (d, c) \<Rightarrow> d);
          chunks = (case ingest of None \<Rightarrow> 0 | Some (d, c) \<Rightarrow> c)
      in \<lparr>snap_total_queries = total_queries m, snap_cache_hits = cache_hits m,
          snap_cache_misses = cache_misses m, snap_active_queries = active_queries m,
          snap_active_connections = active_connections m,
          avg_exec_sec = avg, p95_exec_sec = p95,
          recent_exec_times = keep_last 20 ts,
          indexed_documents = docs, indexed_chunks = chunks\<rparr>)"

lemma get_metrics_avg: "avg_exec_sec (get_metrics m ingest) = avg_of (exec_times m)"
  by (simp add: get_metrics_def Let_def)

lemma get_metrics_p95: "p95_exec_sec (get_metrics m ingest) = p95_of (exec_times m)"
  by (simp add: get_metrics_def Let_def)

lemma int_095_in_range: "0 < n \<Longrightarrow> 0 \<le> int_095 n \<and> int_095 n \<le> int n - 1"
  unfolding int_095_def by linarith

lemma int_095_nat: "nat (int_095 n) = (95 * n) div 100"
proof -
  have "int_095 n = int ((95 * n) div 100)"
    unfolding int_095_def by (simp add: zdiv_int)
  then show ?thesis by simp
qed

text \<open>
  Claim C8 (as amended).  With an empty latency window \<open>get_metrics\<close> reports 0 for
  both the average and the 95th percentile.  With a window of \<open>n > 0\<close> times the
  average is their arithmetic mean, and the 95th percentile is the element of the sorted
  window at index \<open>\<lfloor>0.95 n\<rfloor>\<close> (the clamp to \<open>n - 1\<close> never takes effect, as this index
  is already below \<open>n\<close>), which is one of the recorded times.
\<close>

theorem p95_index_and_average:
  "(exec_times m = [] \<longrightarrow>
      avg_exec_sec (get_metrics m ingest) = 0 \<and> p95_exec_sec (get_metrics m ingest) = 0)
   \<and> (exec_times m \<noteq> [] \<longrightarrow>
      avg_exec_sec (get_metrics m ingest) = sum_list (exec_times m) / real (length (exec_times m))
    \<and> (95 * length (exec_times m)) div 100 < length (exec_times m)
    \<and> p95_exec_sec (get_metrics m ingest)
        = sort (exec_times m) ! ((95 * length (exec_times m)) div 100)
    \<and> p95_exec_sec (get_metrics m ingest) \<in> set (exec_times m))"
proof (intro conjI impI)
  assume e: "exec_times m = []"
  show "avg_exec_sec (get_metrics m ingest) = 0"
    by (simp add: get_metrics_avg avg_of_def e)
  show "p95_exec_sec (get_metrics m ingest) = 0"
    by (simp add: get_metrics_p95 p95_of_def e)
next
  assume ne: "exec_times m \<noteq> []"
  let ?n = "length (exec_times m)"
  from ne have pos: "0 < ?n" by simp
  show "avg_exec_sec (get_metrics m ingest) = sum_list (exec_times m) / real ?n"
    by (simp add: get_metrics_avg avg_of_def ne)
  show lt: "(95 * ?n) div 100 < ?n" using pos by linarith
  have "min (int ?n - 1) (int_095 ?n) = int_095 ?n"
    using int_095_in_range[OF pos] by simp
  then show p: "p95_exec_sec (get_metrics m ingest) = sort (exec_times m) ! ((95 * ?n) div 100)"
    by (simp add: get_metrics_p95 p95_of_def ne Let_def int_095_nat)
  have "sort (exec_times m) ! ((95 * ?n) div 100) \<in> set (sort (exec_times m))"
    using lt by (intro nth_mem) simp
  then show "p95_exec_sec (get_metrics m ingest) \<in> set (exec_times m)"
    by (simp add: p)
qed

text \<open>The theorem at the window \<open>[3, 1, 2]\<close> and at the empty window.\<close>

theorem p95_index_and_average_witness:
  "exec_times (metrics_init\<lparr>exec_times := [3, 1, 2]\<rparr>) \<noteq> []
   \<and> avg_exec_sec (get_metrics (metrics_init\<lparr>exec_times := [3, 1, 2]\<rparr>) None) = 2
   \<and> p95_exec_sec (get_metrics (metrics_init\<lparr>exec_times := [3, 1, 2]\<rparr>) None) = 3
   \<and> exec_times metrics_init = []
   \<and> avg_exec_sec (get_metrics metrics_init None) = 0
   \<and> p95_exec_sec (get_metrics metrics_init None) = 0"
  using p95_index_and_average [of "metrics_init\<lparr>exec_times := [3, 1, 2]\<rparr>" None]
    p95_index_and_average [of metrics_init None]
  by (simp add: metrics_init_def)

text \<open>
  Claim C8 as stated takes the index \<open>\<lfloor>0.95 (n - 1)\<rfloor>\<close>.  For the window \<open>[1, 2]\<close> that
  index is 0 and selects 1, while \<open>get_metrics\<close> reports 2.
\<close>

theorem p95_index_counterexample:
  "p95_exec_sec (get_metrics (metrics_init\<lparr>exec_times := [1, 2]\<rparr>) None) = 2
   \<and> sort [1, 2 :: real] ! nat \<lfloor>0.95 * (real (length [1, 2 :: real]) - 1)\<rfloor> = 1"
  by (simp add: get_metrics_def p95_of_def int_095_def metrics_init_def Let_def)

section \<open>Strings and regular expressions\<close>

text \<open>
  Query text is a Python \<open>str\<close>; it is modelled as a \<open>string\<close> of ASCII characters.
  The character classes below are what Python's \<open>re\<close> module and \<open>str.lower\<close> do on
  ASCII text (for text outside ASCII Python consults the Unicode tables, which are not
  modelled).
\<close>

definition code :: "char \<Rightarrow> nat" where
  "code c = of_char c"

definition is_digit :: "char \<Rightarrow> bool" where
  "is_digit c = (48 \<le> code c \<and> code c \<le> 57)"

definition is_lower :: "char \<Rightarrow> bool" where
  "is_lower c = (97 \<le> code c \<and> code c \<le> 122)"

definition is_upper :: "char \<Rightarrow> bool" where
  "is_upper c = (65 \<le> code c \<and> code c \<le> 90)"

definition is_alpha :: "char \<Rightarrow> bool" where
  "is_alpha c = (is_lower c \<or> is_upper c)"

text \<open>\<open>\w\<close>, \<open>\s\<close> (which in Python includes the separators 28 to 31) and \<open>\d\<close>.\<close>

definition is_word :: "char \<Rightarrow> bool" where
  "is_word c = (is_alpha c \<or> is_digit c \<or> c = CHR ''_'')"

definition is_space :: "char \<Rightarrow> bool" where
  "is_space c = ((9 \<le> code c \<and> code c \<le> 13) \<or> (28 \<le> code c \<and> code c \<le> 32))"

definition lower_char :: "char \<Rightarrow> char" where
  "lower_char c = (if is_upper c then char_of (code c + 32) else c)"

definition lower :: "string \<Rightarrow> string" where
  "lower s = map lower_char s"

text \<open>\<open>x in s\<close> for strings: \<open>x\<close> occurs in \<open>s\<close> as a contiguous substring.\<close>

fun contains :: "string \<Rightarrow> string \<Rightarrow> bool" where
  "contains [] x = (x = [])"
| "contains (c # cs) x = (take (length x) (c # cs) = x \<or> contains cs x)"

text \<open>
  \<open>s.replace(old, new)\<close> for a non-empty \<open>old\<close>: every occurrence, left to right,
  without overlap.
\<close>

function replace :: "string \<Rightarrow> string \<Rightarrow> string \<Rightarrow> string" where
  "replace [] old new = []"
| "replace (c # cs) old new =
     (if old \<noteq> [] \<and> take (length old) (c # cs) = old
      then new @ replace (drop (length old) (c # cs)) old new
      else c # replace cs old new)"
  by pat_completeness auto
termination
  by (relation "measure (\<lambda>(s, old, new). length s)") (auto simp: neq_Nil_conv)

subsection \<open>A backtracking matcher\<close>

text \<open>
  The patterns of the source use literals, character classes, \<open>\b\<close>, sequence,
  alternation, the greedy quantifiers \<open>?\<close>, \<open>*\<close>, \<open>+\<close>, \<open>{n}\<close>, and groups.  A
  capturing group carries its number.
\<close>

datatype regex =
    Lit string
  | Cls "char \<Rightarrow> bool"
  | WordB
  | Seq regex regex
  | Alt regex regex
  | Opt regex
  | Star regex
  | Grp nat regex

definition Plus :: "regex \<Rightarrow> regex" where
  "Plus r = Seq r (Star r)"

fun Rep :: "nat \<Rightarrow> regex \<Rightarrow> regex" where
  "Rep 0 r = Lit []"
| "Rep (Suc n) r = Seq r (Rep n r)"

fun Seqs :: "regex list \<Rightarrow> regex" where
  "Seqs [] = Lit []"
| "Seqs [r] = r"
| "Seqs (r # rs) = Seq r (Seqs rs)"

fun Alts :: "regex list \<Rightarrow> regex" where
  "Alts [] = Cls (\<lambda>c. False)"
| "Alts [r] = r"
| "Alts (r # rs) = Alt r (Alts rs)"

type_synonym caps = "(nat \<times> string) list"

text \<open>\<open>\b\<close>: exactly one side of the position is a word character.\<close>

definition word_boundary :: "string \<Rightarrow> nat \<Rightarrow> bool" where
  "word_boundary s i =
     ((0 < i \<and> i \<le> length s \<and> is_word (s ! (i - 1))) \<noteq> (i < length s \<and> is_word (s ! i)))"

text \<open>
  \<open>rmatch r s (i, c)\<close> lists the ways in which \<open>r\<close> matches \<open>s\<close> from position \<open>i\<close>,
  each as the end position and the captures, in the order in which a backtracking
  matcher tries them: the head of the list is the match that Python reports.  An
  iteration of \<open>*\<close> that consumes nothing is dropped.
\<close>

function (sequential) rmatch :: "regex \<Rightarrow> string \<Rightarrow> nat \<times> caps \<Rightarrow> (nat \<times> caps) list" where
  "rmatch (Lit cs) s (i, c) = (if take (length cs) (drop i s) = cs then [(i + length cs, c)] else [])"
| "rmatch (Cls p) s (i, c) = (if i < length s \<and> p (s ! i) then [(Suc i, c)] else [])"
| "rmatch WordB s (i, c) = (if word_boundary s i then [(i, c)] else [])"
| "rmatch (Seq r1 r2) s st = concat (map (rmatch r2 s) (rmatch r1 s st))"
| "rmatch (Alt r1 r2) s st = rmatch r1 s st @ rmatch r2 s st"
| "rmatch (Opt r) s st = rmatch r s st @ [st]"
| "rmatch (Star r) s (i, c) =
     concat (map (rmatch (Star r) s)
        (filter (\<lambda>st'. i < fst st' \<and> fst st' \<le> length s) (rmatch r s (i, c)))) @ [(i, c)]"
| "rmatch (Grp n r) s (i, c) =
     map (\<lambda>st'. (fst st', (n, take (fst st' - i) (drop i s)) # snd st')) (rmatch r s (i, c))"
  by pat_completeness auto
termination
  by (relation "inv_image (less_than <*lex*> less_than) (\<lambda>(r, s, st). (size r, length s - fst st))")
    auto

text \<open>\<open>re.search\<close>: the first match at the leftmost position that has one.\<close>

fun search_from :: "regex \<Rightarrow> string \<Rightarrow> nat list \<Rightarrow> (nat \<times> nat \<times> caps) option" where
  "search_from r s [] = None"
| "search_from r s (i # is) =
     (case rmatch r s (i, []) of
        [] \<Rightarrow> search_from r s is
      | st # _ \<Rightarrow> Some (i, fst st, snd st))"

definition re_search :: "regex \<Rightarrow> string \<Rightarrow> (nat \<times> nat \<times> caps) option" where
  "re_search r s = search_from r s [0 ..< Suc (length s)]"

definition re_test :: "regex \<Rightarrow> string \<Rightarrow> bool" where
  "re_test r s = (re_search r s \<noteq> None)"

text \<open>\<open>m.group(n)\<close>.\<close>

definition group :: "nat \<times> nat \<times> caps \<Rightarrow> nat \<Rightarrow> string" where
  "group m n = (case map_of (snd (snd m)) n of None \<Rightarrow> [] | Some g \<Rightarrow> g)"

text \<open>
  The successive, non-overlapping matches that \<open>re.findall\<close> and \<open>re.sub\<close> walk through.
  After an empty match the scan moves on by one character.
\<close>

function matches_from :: "regex \<Rightarrow> string \<Rightarrow> nat \<Rightarrow> (nat \<times> nat \<times> caps) list" where
  "matches_from r s i =
     (if length s < i then []
      else (case rmatch r s (i, []) of
              [] \<Rightarrow> matches_from r s (Suc i)
            | st # _ \<Rightarrow> (i, fst st, snd st) # matches_from r s (if i < fst st then fst st else Suc i)))"
  by pat_completeness auto
termination
  by (relation "measure (\<lambda>(r, s, i). Suc (length s) - i)") auto

declare matches_from.simps [simp del]

text \<open>\<open>re.findall\<close> for a pattern with one capturing group, numbered 1.\<close>

definition re_findall :: "regex \<Rightarrow> string \<Rightarrow> string list" where
  "re_findall r s = map (\<lambda>m. group m 1) (matches_from r s 0)"

text \<open>\<open>re.sub\<close> with a replacement text without escapes, for matches that are not empty.\<close>

fun splice :: "string \<Rightarrow> string \<Rightarrow> nat \<Rightarrow> (nat \<times> nat \<times> caps) list \<Rightarrow> string" where
  "splice s repl pos [] = drop pos s"
| "splice s repl pos (m # ms) = take (fst m - pos) (drop pos s) @ repl @ splice s repl (fst (snd m)) ms"

definition re_sub :: "regex \<Rightarrow> string \<Rightarrow> string \<Rightarrow> string" where
  "re_sub r repl s = splice s repl 0 (matches_from r s 0)"

text \<open>\<open>\bw\b\<close> for a word \<open>w\<close>, and \<open>\b(w1|...|wn)\b\<close>.\<close>

definition wordre :: "string \<Rightarrow> regex" where
  "wordre w = Seqs [WordB, Lit w, WordB]"

definition words_re :: "regex list \<Rightarrow> regex" where
  "words_re rs = Seqs [WordB, Grp 1 (Alts rs), WordB]"

section \<open>The query type router (\<open>_classify\<close>)\<close>

definition sql_keys :: "string list" where
  "sql_keys = [''employee'', ''employees'', ''department'', ''dept'', ''hired'', ''salary'',
     ''role'', ''position'']"

definition doc_keys :: "string list" where
  "doc_keys = [''resume'', ''document'', ''pdf'', ''contract'', ''clause'', ''policy'',
     ''termination'']"

definition skill_role_tokens :: "string list" where
  "skill_role_tokens = [''python'', ''javascript'', ''sql'', ''nlp'', ''ml'', ''developer'',
     ''engineer'', ''manager'']"

definition has_sql :: "string \<Rightarrow> bool" where
  "has_sql q = (list_ex (contains q) sql_keys
      \<or> re_findall (words_re (map Lit skill_role_tokens)) q \<noteq> [])"

definition has_doc :: "string \<Rightarrow> bool" where
  "has_doc q = list_ex (contains q) doc_keys"

definition classify :: "string \<Rightarrow> string" where
  "classify query =
     (let q = lower query in
      if has_sql q \<and> has_doc q then ''hybrid''
      else if has_sql q then ''sql''
      else if has_doc q then ''document''
      else ''sql'')"





subsection \<open>The searches find exactly what is present\<close>




















section \<open>Python values\<close>

text \<open>
  Result envelopes, bound parameters and database rows are Python dictionaries with
  string keys.  A dictionary is an association list in insertion order; \<open>setitem\<close>
  above is the assignment \<open>d[k] = v\<close>.
\<close>

datatype pyval =
    PNone
  | PBool bool
  | PInt int
  | PFloat real
  | PStr string
  | PList "pyval list"
  | PDict "(string \<times> pyval) list"

type_synonym pydict = "(string \<times> pyval) list"

definition dict_get :: "pydict \<Rightarrow> string \<Rightarrow> pyval option" where
  "dict_get d k = map_of d k"

text \<open>\<open>d.get(k, default)\<close>.\<close>

definition dict_get_or :: "pydict \<Rightarrow> string \<Rightarrow> pyval \<Rightarrow> pyval" where
  "dict_get_or d k dflt = (case map_of d k of None \<Rightarrow> dflt | Some v \<Rightarrow> v)"

text \<open>The characters \<open>'\<close> and \<open>"\<close>.\<close>

definition sq :: char where
  "sq = CHR 0x27"

definition dq :: char where
  "dq = CHR 0x22"

text \<open>Decimal text of a natural number (\<open>str(i)\<close>), and \<open>int(s)\<close> for a text of digits.\<close>

definition digit_char :: "nat \<Rightarrow> char" where
  "digit_char d = char_of (48 + d)"

fun show_nat_fuel :: "nat \<Rightarrow> nat \<Rightarrow> string" where
  "show_nat_fuel 0 n = [digit_char (n mod 10)]"
| "show_nat_fuel (Suc f) n =
     (if n < 10 then [digit_char n] else show_nat_fuel f (n div 10) @ [digit_char (n mod 10)])"

definition show_nat :: "nat \<Rightarrow> string" where
  "show_nat n = show_nat_fuel n n"

definition parse_nat :: "string \<Rightarrow> nat" where
  "parse_nat s = foldl (\<lambda>acc c. 10 * acc + (code c - 48)) 0 s"

text \<open>\<open>s.strip()\<close> and \<open>sep.join(xs)\<close>.\<close>

definition strip :: "string \<Rightarrow> string" where
  "strip s = rev (dropWhile is_space (rev (dropWhile is_space s)))"

fun join :: "string \<Rightarrow> string list \<Rightarrow> string" where
  "join sep [] = []"
| "join sep [x] = x"
| "join sep (x # xs) = x @ sep @ join sep xs"

section \<open>Normalisation and intent (\<open>_normalize_tokens\<close>, \<open>_infer_intent\<close>)\<close>

definition synonyms :: "(string \<times> string) list" where
  "synonyms = [(''dept'', ''department''), (''division'', ''department''),
     (''compensation'', ''salary''), (''pay'', ''salary''), (''staff'', ''employees''),
     (''emp'', ''employees''), (''departements'', ''departments'')]"

definition normalize_tokens :: "string \<Rightarrow> string" where
  "normalize_tokens query = foldl (\<lambda>q kv. re_sub (wordre (fst kv)) (snd kv) q) (lower query) synonyms"

definition spaces1 :: regex where
  "spaces1 = Plus (Cls is_space)"

definition spaces0 :: regex where
  "spaces0 = Star (Cls is_space)"

definition digits1 :: regex where
  "digits1 = Plus (Cls is_digit)"

definition letters1 :: regex where
  "letters1 = Plus (Cls is_alpha)"

definition opt_quote :: regex where
  "opt_quote = Opt (Alt (Lit [sq]) (Lit [dq]))"

definition infer_intent :: "string \<Rightarrow> string" where
  "infer_intent q =
     (if re_test (words_re [Lit ''how many'', Lit ''count'', Lit ''number of'']) q then ''count''
      else if re_test (Seqs [WordB, Lit ''average'', spaces1, Lit ''salary'', WordB]) q
              \<and> re_test (wordre ''department'') q then ''avg_by_dept''
      else if re_test (Seqs [WordB, Lit ''top'', spaces0, digits1, WordB]) q
              \<and> re_test (words_re [Seqs [Lit ''each'', spaces1, Lit ''department''],
                                    Seqs [Lit ''per'', spaces1, Lit ''department'']]) q
           then ''top_paid_each_dept''
      else if re_test (Seqs [Lit ''email'', spaces0, Cls (\<lambda>c. c = CHR '':'' \<or> c = CHR ''='')]) q
              \<or> re_test (Seqs [WordB, Lit ''id'', spaces0, Opt (Cls (\<lambda>c. c = CHR '':'' \<or> c = CHR ''='')),
                                spaces0, digits1, WordB]) q
              \<or> re_test (Seqs [WordB, Lit ''which'', spaces1, Lit ''employee'', WordB]) q
           then ''find_one''
      else ''select'')"

section \<open>Filters (\<open>_infer_filters\<close>)\<close>

text \<open>
  The function appends SQL fragments to the list \<open>where\<close> and binds values in the
  dictionary \<open>params\<close>.  Each of its steps is one function on that pair, in the order of
  the source; fragments name columns by placeholders that \<open>_run_sql\<close> resolves later.
\<close>

type_synonym preds = "string list \<times> pydict"

definition add_where :: "string \<Rightarrow> preds \<Rightarrow> preds" where
  "add_where frag wp = (fst wp @ [frag], snd wp)"

definition bind :: "string \<Rightarrow> pyval \<Rightarrow> preds \<Rightarrow> preds" where
  "bind k v wp = (fst wp, setitem k v (snd wp))"

definition hired_year :: "string list \<Rightarrow> regex" where
  "hired_year ws = Seqs [Lit ''hired'', spaces1, Alts (map Lit ws), spaces1, Grp 1 (Rep 4 (Cls is_digit))]"

definition f_this_year :: "string \<Rightarrow> preds \<Rightarrow> preds" where
  "f_this_year q wp =
     (if contains q ''hired this year'' \<or> re_test (wordre ''this year'') q
      then add_where ''strftime('%Y', E_HIRE_COL) = strftime('%Y', 'now')'' wp else wp)"

definition f_year_in :: "string \<Rightarrow> preds \<Rightarrow> preds" where
  "f_year_in q wp =
     (case re_search (hired_year [''in'', ''on'']) q of
        None \<Rightarrow> wp
      | Some m \<Rightarrow> add_where ''strftime('%Y', E_HIRE_COL) = :year_in''
                   (bind ''year_in'' (PStr (group m 1)) wp))"

definition f_year_after :: "string \<Rightarrow> preds \<Rightarrow> preds" where
  "f_year_after q wp =
     (case re_search (hired_year [''after'', ''since'']) q of
        None \<Rightarrow> wp
      | Some m \<Rightarrow> add_where ''strftime('%Y', E_HIRE_COL) > :year_after''
                   (bind ''year_after'' (PStr (group m 1)) wp))"

definition f_year_before :: "string \<Rightarrow> preds \<Rightarrow> preds" where
  "f_year_before q wp =
     (case re_search (hired_year [''before'']) q of
        None \<Rightarrow> wp
      | Some m \<Rightarrow> add_where ''strftime('%Y', E_HIRE_COL) < :year_before''
                   (bind ''year_before'' (PStr (group m 1)) wp))"

definition f_year_between :: "string \<Rightarrow> preds \<Rightarrow> preds" where
  "f_year_between q wp =
     (case re_search (Seqs [Lit ''hired'', spaces1, Lit ''between'', spaces1,
                            Grp 1 (Rep 4 (Cls is_digit)), spaces1, Lit ''and'', spaces1,
                            Grp 2 (Rep 4 (Cls is_digit))]) q of
        None \<Rightarrow> wp
      | Some m \<Rightarrow> add_where ''strftime('%Y', E_HIRE_COL) BETWEEN :year_b1 AND :year_b2''
                   (bind ''year_b2'' (PStr (group m 2)) (bind ''year_b1'' (PStr (group m 1)) wp)))"

definition skill_words :: "string list" where
  "skill_words = [''python'', ''java'', ''javascript'', ''sql'', ''nlp'', ''ml'', ''react'',
     ''django'', ''postgresql'']"

text \<open>The loop over \<open>enumerate(skills)\<close>.\<close>

fun skill_loop :: "nat \<Rightarrow> string list \<Rightarrow> preds \<Rightarrow> preds" where
  "skill_loop i [] wp = wp"
| "skill_loop i (sk # sks) wp =
     skill_loop (Suc i) sks
       (add_where (''(E_SKILLS_COL LIKE :skill_kw_'' @ show_nat i @ '' OR e.position LIKE :skill_kw_''
                     @ show_nat i @ '')'')
          (bind (''skill_kw_'' @ show_nat i) (PStr (''%'' @ sk @ ''%'')) wp))"

definition f_skills :: "string \<Rightarrow> preds \<Rightarrow> preds" where
  "f_skills q wp = skill_loop 0 (re_findall (words_re (map Lit skill_words)) q) wp"

definition f_reports_to :: "string \<Rightarrow> preds \<Rightarrow> preds" where
  "f_reports_to q wp =
     (case re_search (Seqs [Lit ''reports'', spaces1, Lit ''to'', spaces1, opt_quote,
                            Grp 1 (Seq letters1 (Plus (Seq spaces1 letters1))), opt_quote]) q of
        None \<Rightarrow> wp
      | Some m \<Rightarrow> add_where ''lower(e.reports_to) = lower(:reports_to_name)''
                   (bind ''reports_to_name'' (PStr (strip (group m 1))) wp))"

definition id_lookup :: "string \<Rightarrow> regex" where
  "id_lookup w = Seqs [WordB, Lit w, spaces0, Opt (Lit ''=''), spaces0, Grp 1 digits1, WordB]"

definition f_id_exact :: "string \<Rightarrow> preds \<Rightarrow> preds" where
  "f_id_exact q wp =
     (case (case re_search (id_lookup ''emp_id'') q of
              None \<Rightarrow> re_search (id_lookup ''id'') q
            | Some m \<Rightarrow> Some m) of
        None \<Rightarrow> wp
      | Some m \<Rightarrow> add_where ''E_ID_COL = :id_exact''
                   (bind ''id_exact'' (PInt (int (parse_nat (group m 1)))) wp))"

definition email_re :: regex where
  "email_re = Grp 1 (Seqs
     [Plus (Cls (\<lambda>c. is_alpha c \<or> is_digit c \<or> c \<in> set ''._%+-'')),
      Lit ''@'',
      Plus (Cls (\<lambda>c. is_alpha c \<or> is_digit c \<or> c \<in> set ''.-'')),
      Lit ''.'',
      Rep 2 (Cls is_alpha), Star (Cls is_alpha)])"

definition f_email_exact :: "string \<Rightarrow> preds \<Rightarrow> preds" where
  "f_email_exact q wp =
     (case re_search email_re q of
        None \<Rightarrow> wp
      | Some m \<Rightarrow> add_where ''lower(E_EMAIL_COL) = lower(:email_exact)''
                   (bind ''email_exact'' (PStr (group m 1)) wp))"

text \<open>\<open>\b(no|missing|empty)\s+\<close> followed by the given pattern and \<open>\b\<close>.\<close>

definition no_missing_empty :: "regex \<Rightarrow> regex" where
  "no_missing_empty r =
     Seqs [WordB, Grp 1 (Alts [Lit ''no'', Lit ''missing'', Lit ''empty'']), spaces1, r, WordB]"

definition f_email_missing :: "string \<Rightarrow> preds \<Rightarrow> preds" where
  "f_email_missing q wp =
     (if re_test (no_missing_empty (Seq (Lit ''email'') (Opt (Lit ''s'')))) q
         \<or> re_test (no_missing_empty (Lit ''email'')) q
         \<or> contains q ''without email''
      then add_where ''EMAIL_IS_MISSING'' wp else wp)"

text \<open>The local function \<open>_has_missing\<close>, and the filters that use it.\<close>

definition has_missing :: "string \<Rightarrow> regex list \<Rightarrow> bool" where
  "has_missing q patterns = list_ex (\<lambda>pat. re_test pat q) patterns"

definition hire_or_join :: regex where
  "hire_or_join = Seqs [Grp 2 (Alt (Lit ''hire'') (Lit ''join'')), spaces1, Lit ''date'']"

definition reports_q_to :: regex where
  "reports_q_to = Seqs [Lit ''report'', Opt (Lit ''s''), spaces0, Lit ''to'']"

definition f_other_missing :: "string \<Rightarrow> preds \<Rightarrow> preds" where
  "f_other_missing q wp =
     (let wp = (if has_missing q [no_missing_empty (Lit ''name''), Seqs [Lit ''without'', spaces1, Lit ''name'']]
                then add_where ''NAME_IS_MISSING'' wp else wp);
          wp = (if has_missing q [no_missing_empty (Seq (Lit ''skill'') (Opt (Lit ''s''))),
                                  Seqs [Lit ''without'', spaces1, Lit ''skill'', Opt (Lit ''s'')]]
                then add_where ''SKILLS_IS_MISSING'' wp else wp);
          wp = (if has_missing q [no_missing_empty (Seq (Lit ''department'') (Opt (Lit ''s''))),
                                  no_missing_empty (Lit ''department''),
                                  Seqs [Lit ''without'', spaces1, Lit ''department'']]
                then add_where ''DEPARTMENT_IS_MISSING'' wp else wp);
          wp = (if has_missing q [no_missing_empty (Seq (Lit ''position'') (Opt (Lit ''s''))),
                                  no_missing_empty (Lit ''position''),
                                  Seqs [Lit ''without'', spaces1, Lit ''position'']]
                then add_where ''POSITION_IS_MISSING'' wp else wp);
          wp = (if has_missing q [no_missing_empty (Lit ''salary''), Seqs [Lit ''without'', spaces1, Lit ''salary'']]
                then add_where ''SALARY_IS_MISSING'' wp else wp);
          wp = (if has_missing q [no_missing_empty hire_or_join,
                                  Seqs [Lit ''without'', spaces1, Grp 1 (Alt (Lit ''hire'') (Lit ''join'')),
                                        spaces1, Lit ''date'']]
                then add_where ''HIRE_DATE_IS_MISSING'' wp else wp);
          wp = (if has_missing q [no_missing_empty reports_q_to,
                                  Seqs [Lit ''without'', spaces1, Lit ''manager''],
                                  Seqs [Lit ''without'', spaces1, reports_q_to]]
                then add_where ''REPORTS_TO_IS_MISSING'' wp else wp)
      in wp)"

definition f_dept_name :: "string \<Rightarrow> preds \<Rightarrow> preds" where
  "f_dept_name q wp =
     (case re_search (Seqs [Lit ''department'', spaces1, Opt (Seq (Lit ''is'') spaces1), opt_quote,
                            Grp 1 letters1, opt_quote]) q of
        None \<Rightarrow> wp
      | Some m \<Rightarrow> add_where ''d.name LIKE :dept_kw''
                   (bind ''dept_kw'' (PStr (''%'' @ group m 1 @ ''%'')) wp))"

definition position_words :: "regex list" where
  "position_words = [Lit ''senior'', Lit ''junior'', Lit ''developer'', Lit ''engineer'',
     Lit ''manager'', Seqs [Lit ''full'', spaces0, Lit ''stack''], Lit ''marketing'', Lit ''hr'']"

fun pos_loop :: "nat \<Rightarrow> string list \<Rightarrow> string list \<times> pydict \<Rightarrow> string list \<times> pydict" where
  "pos_loop i [] lp = lp"
| "pos_loop i (p # ps) lp =
     pos_loop (Suc i) ps
       (fst lp @ [''e.position LIKE :pos_kw_'' @ show_nat i],
        setitem (''pos_kw_'' @ show_nat i) (PStr (''%'' @ p @ ''%'')) (snd lp))"

definition f_position :: "string \<Rightarrow> preds \<Rightarrow> preds" where
  "f_position q wp =
     (let pos = re_findall (words_re position_words) q in
      if pos \<noteq> []
      then (let lp = pos_loop 0 pos ([], snd wp)
            in (fst wp @ [''('' @ join '' OR '' (fst lp) @ '')''], snd lp))
      else wp)"

definition name_re :: regex where
  "name_re = Seqs [WordB,
     Alts [Seqs [Lit ''show'', spaces1, Lit ''me''], Lit ''find'',
           Seq (Lit ''employee'') (Opt (Seq spaces1 (Lit ''named'')))],
     spaces1, opt_quote, Grp 1 (Seq letters1 (Opt (Seq spaces1 letters1))), opt_quote, WordB]"

definition f_name_like :: "string \<Rightarrow> preds \<Rightarrow> preds" where
  "f_name_like q wp =
     (case re_search name_re q of
        None \<Rightarrow> wp
      | Some m \<Rightarrow>
          (let n = strip (group m 1) in
           if n \<noteq> [] \<and> length n \<ge> 2
           then add_where ''E_NAME_COL LIKE :name_like'' (bind ''name_like'' (PStr (''%'' @ n @ ''%'')) wp)
           else wp))"

definition filter_steps :: "(string \<Rightarrow> preds \<Rightarrow> preds) list" where
  "filter_steps = [f_this_year, f_year_in, f_year_after, f_year_before, f_year_between,
     f_skills, f_reports_to, f_id_exact, f_email_exact, f_email_missing, f_other_missing,
     f_dept_name, f_position, f_name_like]"

definition infer_filters :: "string \<Rightarrow> string \<times> pydict" where
  "infer_filters q =
     (let wp = foldl (\<lambda>wp f. f q wp) ([], []) filter_steps
      in (if fst wp \<noteq> [] then join '' AND '' (fst wp) else [], snd wp))"

section \<open>The connected database and its schema (\<open>_detect_schema\<close>)\<close>

text \<open>
  A connected database is seen through SQLAlchemy's inspector (table names and, per
  table, column names) and through the execution of statements.  What a statement
  returns is not modelled: \<open>db_scalar\<close> and \<open>db_rows\<close> stand for
  \<open>conn.execute(...).scalar_one()\<close> and \<open>conn.execute(...).mappings().all()\<close>, with
  \<open>Inl\<close> carrying the text of the exception when the call raises.
\<close>

record database =
  db_tables :: "(string \<times> string list) list"
  db_scalar :: "string \<Rightarrow> pydict \<Rightarrow> string + pyval"
  db_rows :: "string \<Rightarrow> pydict \<Rightarrow> string + pyval list"

definition table_names :: "database \<Rightarrow> string list" where
  "table_names db = map fst (db_tables db)"

definition get_columns :: "database \<Rightarrow> string \<Rightarrow> string list" where
  "get_columns db t = (case map_of (db_tables db) t of None \<Rightarrow> [] | Some cs \<Rightarrow> cs)"

text \<open>
  The mapping that \<open>_detect_schema\<close> returns.  The values of the inner dictionaries are
  strings or \<open>None\<close>; those read with \<open>e["..."]\<close> are always strings.
\<close>

record emp_cols =
  c_id :: string
  c_name :: string
  c_email :: "string option"
  c_position :: "string option"
  c_salary :: "string option"
  c_hire_date :: "string option"
  c_skills :: "string option"
  c_dept_fk :: "string option"
  c_reports_to :: "string option"

record schema_mapping =
  emp_table :: string
  dept_table :: "string option"
  emp :: emp_cols
  dept :: "(string \<times> string) option"

definition default_mapping :: schema_mapping where
  "default_mapping = \<lparr>emp_table = ''employees'', dept_table = Some ''departments'',
     emp = \<lparr>c_id = ''id'', c_name = ''name'', c_email = Some ''email'',
            c_position = Some ''position'', c_salary = Some ''salary'',
            c_hire_date = Some ''hire_date'', c_skills = Some ''skills'',
            c_dept_fk = Some ''department_id'', c_reports_to = Some ''reports_to''\<rparr>,
     dept = Some (''id'', ''name'')\<rparr>"

definition col_if_present :: "string \<Rightarrow> string list \<Rightarrow> string option" where
  "col_if_present c cols = (if c \<in> set cols then Some c else None)"

text \<open>
  \<open>_detect_schema\<close>.  The only failure of its own is \<open>get_columns("staff")[0]\<close> on a
  table without columns (an \<open>IndexError\<close>).
\<close>

definition detect_schema :: "database \<Rightarrow> string + schema_mapping" where
  "detect_schema db =
     (let tables = table_names db in
      if ''employees'' \<in> set tables then
        (let emp_cols = get_columns db ''employees'';
             dept_cols = (if ''departments'' \<in> set tables then get_columns db ''departments'' else [])
         in if set [''emp_id'', ''full_name'', ''dept_id'', ''join_date''] \<subseteq> set emp_cols
            then Inr \<lparr>emp_table = ''employees'',
                      dept_table = (if ''departments'' \<in> set tables then Some ''departments'' else None),
                      emp = \<lparr>c_id = ''emp_id'', c_name = ''full_name'',
                             c_email = col_if_present ''email'' emp_cols,
                             c_position = Some ''position'', c_salary = Some ''annual_salary'',
                             c_hire_date = Some ''join_date'',
                             c_skills = col_if_present ''skills'' emp_cols,
                             c_dept_fk = Some ''dept_id'',
                             c_reports_to = col_if_present ''reports_to'' emp_cols\<rparr>,
                      dept = (if set [''dept_id'', ''dept_name''] \<subseteq> set dept_cols
                              then Some (''dept_id'', ''dept_name'') else None)\<rparr>
            else Inr default_mapping)
      else if ''staff'' \<in> set tables then
        (if get_columns db ''staff'' = [] then Inl ''list index out of range''
         else Inr \<lparr>emp_table = ''staff'', dept_table = None,
                   emp = \<lparr>c_id = ''id'', c_name = ''name'', c_email = Some ''email'',
                          c_position = Some ''role'', c_salary = Some ''compensation'',
                          c_hire_date = Some ''hired_on'',
                          c_skills = col_if_present ''skills'' (get_columns db ''staff''),
                          c_dept_fk = Some ''department'', c_reports_to = Some ''reports_to''\<rparr>,
                   dept = None\<rparr>)
      else if ''personnel'' \<in> set tables then
        Inr \<lparr>emp_table = ''personnel'',
             dept_table = (if ''divisions'' \<in> set tables then Some ''divisions'' else None),
             emp = \<lparr>c_id = ''person_id'', c_name = ''employee_name'',
                    c_email = col_if_present ''email'' (get_columns db ''personnel''),
                    c_position = Some ''title'', c_salary = Some ''pay_rate'',
                    c_hire_date = Some ''start_date'',
                    c_skills = col_if_present ''skills'' (get_columns db ''personnel''),
                    c_dept_fk = Some ''division'',
                    c_reports_to = col_if_present ''reports_to'' (get_columns db ''personnel'')\<rparr>,
             dept = (if ''divisions'' \<in> set tables then Some (''division_code'', ''division_name'') else None)\<rparr>
      else Inr default_mapping)"

section \<open>SQL synthesis and execution (\<open>_run_sql\<close>)\<close>

text \<open>Truth value of an optional string, \<open>x or default\<close>, and formatting in an f-string.\<close>

definition truthy :: "string option \<Rightarrow> bool" where
  "truthy x = (case x of None \<Rightarrow> False | Some s \<Rightarrow> s \<noteq> [])"

definition or_else :: "string option \<Rightarrow> string \<Rightarrow> string" where
  "or_else x dflt = (case x of None \<Rightarrow> dflt | Some s \<Rightarrow> if s \<noteq> [] then s else dflt)"

definition fmt :: "string option \<Rightarrow> string" where
  "fmt x = (case x of None \<Rightarrow> ''None'' | Some s \<Rightarrow> s)"

text \<open>\<open>if old in w: w = w.replace(old, new)\<close>.\<close>

definition subst :: "string \<Rightarrow> string \<Rightarrow> string \<Rightarrow> string" where
  "subst old new w = (if contains w old then replace w old new else w)"

subsection \<open>The entity guard\<close>

definition entity_tables :: "(string \<times> string) list" where
  "entity_tables = [(''contractors'', ''contractors''), (''vendor'', ''vendors''),
     (''vendors'', ''vendors''), (''intern'', ''interns''), (''interns'', ''interns''),
     (''project'', ''projects''), (''projects'', ''projects'')]"

text \<open>The loop over \<open>entity_tables.items()\<close>: the table of the first keyword that trips it.\<close>

fun entity_guard :: "string \<Rightarrow> string list \<Rightarrow> (string \<times> string) list \<Rightarrow> string option" where
  "entity_guard qn tabs [] = None"
| "entity_guard qn tabs (kt # rest) =
     (if re_test (wordre (fst kt)) qn \<and> snd kt \<notin> set tabs then Some (snd kt)
      else entity_guard qn tabs rest)"

definition missing_entity_env :: "string \<Rightarrow> pydict" where
  "missing_entity_env t =
     [(''type'', PStr ''sql''), (''sql'', PNone), (''params'', PDict []), (''rows'', PList []),
      (''error'', PStr (''error: not present in your database (missing entity: '' @ [sq] @ t @ [sq] @ '')'')),
      (''pagination'', PNone)]"

definition email_column_missing_env :: pydict where
  "email_column_missing_env =
     [(''type'', PStr ''sql''), (''sql'', PNone), (''params'', PDict []), (''rows'', PList []),
      (''error'', PStr ''error: not present in your database (email column missing)''),
      (''pagination'', PNone)]"

definition email_filter_warning_env :: pydict where
  "email_filter_warning_env =
     [(''type'', PStr ''sql''), (''sql'', PNone), (''params'', PDict []), (''rows'', PList []),
      (''warning'', PStr ''Email column not present; cannot filter for missing email.''),
      (''pagination'', PNone)]"

subsection \<open>Placeholder resolution\<close>

text \<open>\<open>(e.c IS NULL OR e.c = '')\<close>.\<close>

definition null_or_empty :: "string \<Rightarrow> string" where
  "null_or_empty c = ''(e.'' @ c @ '' IS NULL OR e.'' @ c @ '' = '' @ [sq, sq] @ '')''"

text \<open>
  The part of \<open>_run_sql\<close> between the entity guard and the building of the statement:
  the placeholders of the \<open>where\<close> text are replaced by columns of the mapping.  \<open>Inl\<close>
  is an envelope that the function returns at once.
\<close>

definition resolve_placeholders :: "emp_cols \<Rightarrow> string \<Rightarrow> pydict + string" where
  "resolve_placeholders e where0 =
     (let col_id = c_id e;
          col_name = c_name e;
          col_email = c_email e;
          col_pos = c_position e;
          col_sal = or_else (c_salary e) ''annual_salary'';
          col_hire = c_hire_date e;
          col_skills = c_skills e;
          col_deptfk = c_dept_fk e;
          col_reports = or_else (c_reports_to e) ''reports_to'';
          w = subst ''e.salary_col'' (''e.'' @ col_sal) where0;
          w = subst ''E_HIRE_COL'' (''e.'' @ or_else col_hire ''join_date'') w;
          w = subst ''E_ID_COL'' (''e.'' @ col_id) w
      in if contains w ''E_EMAIL_COL'' \<and> \<not> truthy col_email then Inl email_column_missing_env
         else
          (let w = (if contains w ''E_EMAIL_COL'' \<and> truthy col_email
                    then replace w ''E_EMAIL_COL'' (''e.'' @ fmt col_email) else w);
               w = subst ''E_NAME_COL'' (''e.'' @ col_name) w;
               w = (if contains w ''E_SKILLS_COL''
                    then (if truthy col_skills then replace w ''E_SKILLS_COL'' (''e.'' @ fmt col_skills)
                          else replace w ''E_SKILLS_COL LIKE'' ''0 /* no skills col */ LIKE'')
                    else w)
           in if contains w ''EMAIL_IS_MISSING'' \<and> \<not> truthy col_email then Inl email_filter_warning_env
              else
               (let w = (if contains w ''EMAIL_IS_MISSING''
                         then replace w ''EMAIL_IS_MISSING'' (null_or_empty (fmt col_email)) else w);
                    w = subst ''NAME_IS_MISSING'' (null_or_empty col_name) w;
                    w = subst ''SKILLS_IS_MISSING''
                          (if truthy col_skills then null_or_empty (fmt col_skills) else ''1=0'') w;
                    w = subst ''DEPARTMENT_IS_MISSING''
                          (if truthy col_deptfk then ''(e.'' @ fmt col_deptfk @ '' IS NULL)'' else ''1=0'') w;
                    w = subst ''POSITION_IS_MISSING''
                          (if truthy col_pos then null_or_empty (fmt col_pos) else ''1=0'') w;
                    w = subst ''SALARY_IS_MISSING'' (''(e.'' @ col_sal @ '' IS NULL)'') w;
                    w = subst ''HIRE_DATE_IS_MISSING'' (null_or_empty (or_else col_hire ''join_date'')) w;
                    w = subst ''REPORTS_TO_IS_MISSING''
                          (if col_reports \<noteq> [] then null_or_empty col_reports else ''1=0'') w
                in Inr w)))"

subsection \<open>Building the statement\<close>

text \<open>
  The statement, the companion count statement (or \<open>None\<close>) and the bound parameters,
  from the resolved \<open>where\<close> text: the source from "Build base FROM/JOIN" to the end of
  the chain over the intent.
\<close>

text \<open>
  The test for a direct listing of departments (the query names departments and not
  employees), and the \<open>N\<close> of "top N" (5 when the query gives none).
\<close>

definition is_dept_listing :: "string \<Rightarrow> bool" where
  "is_dept_listing qn =
     (re_test (Seqs [WordB, Lit ''department'', Opt (Lit ''s''), WordB]) qn
      \<and> \<not> re_test (Seqs [WordB, Lit ''employee'', Opt (Lit ''s''), WordB]) qn)"

definition top_n :: "string \<Rightarrow> int" where
  "top_n qn =
     (case re_search (Seqs [Lit ''top'', spaces0, Grp 1 digits1]) qn of
        Some mtop \<Rightarrow> int (parse_nat (group mtop 1))
      | None \<Rightarrow> 5)"

record built =
  b_sql :: string
  b_count_sql :: "string option"
  b_params :: pydict

definition build_sql ::
    "schema_mapping \<Rightarrow> string \<Rightarrow> string \<Rightarrow> pydict \<Rightarrow> string \<Rightarrow> int \<Rightarrow> int \<Rightarrow> built" where
  "build_sql m qn where1 params0 intent limit offset =
     (let et = emp_table m;
          dt = dept_table m;
          e = emp m;
          d = dept m;
          col_id = c_id e;
          col_name = c_name e;
          col_email = c_email e;
          col_sal = or_else (c_salary e) ''annual_salary'';
          col_deptfk = c_dept_fk e;
          dt_and_d = (if truthy dt then d else None);
          dedup_cte = (if truthy col_email
                       then ''WITH latest AS (SELECT '' @ fmt col_email @ '' AS email, MAX('' @ col_id
                            @ '') AS max_id FROM '' @ et @ '' GROUP BY '' @ fmt col_email @ '') ''
                       else []);
          dept_join = (case dt_and_d of
                         Some dd \<Rightarrow> '' LEFT JOIN '' @ fmt dt @ '' d ON e.'' @ fmt col_deptfk @ '' = d.'' @ fst dd
                       | None \<Rightarrow> []);
          select_cols = [''e.*'',
                         (case dt_and_d of
                            Some dd \<Rightarrow> ''d.'' @ snd dd @ '' AS department''
                          | None \<Rightarrow> ''e.'' @ fmt col_deptfk @ '' AS department'')];
          base = dedup_cte @ ''SELECT '' @ join '', '' select_cols @ '' FROM '' @ et @ '' e ''
                 @ (if dedup_cte \<noteq> [] then ''JOIN latest l ON l.max_id = e.'' @ col_id @ '' '' else [])
                 @ dept_join;
          dept_listing = is_dept_listing qn;
          dname = (case d of Some dd \<Rightarrow> snd dd | None \<Rightarrow> ''dept_name'');
          did = (case d of Some dd \<Rightarrow> fst dd | None \<Rightarrow> ''dept_id'');
          w = (if dept_listing \<and> where1 \<noteq> [] \<and> contains where1 ''D_NAME_COL''
               then replace where1 ''D_NAME_COL'' (''d.'' @ dname) else where1);
          sql = (if dept_listing
                 then ''SELECT d.'' @ did @ '' AS dept_id, d.'' @ dname @ '' AS dept_name, d.manager_id FROM ''
                      @ or_else dt ''departments'' @ '' d''
                      @ (if w \<noteq> [] then '' WHERE '' @ w else [])
                      @ '' ORDER BY d.'' @ did @ '' ASC LIMIT :limit OFFSET :offset''
                 else base);
          params = (if dept_listing
                    then setitem ''offset'' (PInt (max 0 offset))
                           (setitem ''limit'' (PInt (max 1 limit)) params0)
                    else params0);
          patch = (w \<noteq> [] \<and> \<not> re_test (Seqs [WordB, Lit ''FROM'', spaces1, Lit ''departments'', WordB]) sql);
          w = (if patch
               then (if contains w ''D_NAME_COL'' \<and> dt_and_d \<noteq> None
                     then replace w ''D_NAME_COL'' (''d.'' @ dname)
                     else if contains w ''D_NAME_COL''
                     then replace w ''D_NAME_COL'' (''e.'' @ fmt col_deptfk)
                     else w)
               else w);
          sql = (if patch then sql @ '' WHERE '' @ w else sql)
      in
      if intent = ''avg_by_dept'' \<and> dt_and_d \<noteq> None then
        \<lparr>b_sql = ''SELECT d.'' @ dname @ '' AS department, AVG(e.'' @ col_sal @ '') AS avg_salary FROM ''
                  @ et @ '' e LEFT JOIN '' @ fmt dt @ '' d ON e.'' @ fmt col_deptfk @ '' = d.'' @ did
                  @ (if w \<noteq> [] then '' WHERE '' @ w else [])
                  @ '' GROUP BY d.'' @ dname @ '' ORDER BY avg_salary DESC'',
         b_count_sql = None, b_params = params\<rparr>
      else if intent = ''count'' then
        \<lparr>b_sql = ''SELECT COUNT(1) AS count FROM ('' @ base
                  @ (if w \<noteq> [] then '' WHERE '' @ w else []) @ '') t'',
         b_count_sql = None, b_params = params\<rparr>
      else if intent = ''top_paid_each_dept'' \<and> dt_and_d \<noteq> None then
        (let part = ''SELECT e.'' @ col_id @ '' AS id, e.'' @ col_name @ '' AS name, e.'' @ col_sal
                    @ '' AS salary, d.'' @ dname @ '' AS department, ''
                    @ ''ROW_NUMBER() OVER (PARTITION BY d.'' @ dname @ '' ORDER BY e.'' @ col_sal
                    @ '' DESC) AS rn ''
                    @ ''FROM '' @ et @ '' e LEFT JOIN '' @ fmt dt @ '' d ON e.'' @ fmt col_deptfk
                    @ '' = d.'' @ did
                    @ (if w \<noteq> [] then '' WHERE '' @ w else []);
             topn = top_n qn
         in \<lparr>b_sql = ''SELECT * FROM ( '' @ part
                      @ '' ) z WHERE z.rn <= :topn ORDER BY z.department, z.salary DESC'',
             b_count_sql = None, b_params = setitem ''topn'' (PInt topn) params\<rparr>)
      else if intent = ''departments_list'' \<and> truthy dt then
        \<lparr>b_sql = sql, b_count_sql = None, b_params = params\<rparr>
      else
        \<lparr>b_sql = sql @ '' ORDER BY e.'' @ col_id @ '' ASC LIMIT :limit OFFSET :offset'',
         b_count_sql = Some (''SELECT COUNT(1) AS total FROM ('' @ sql @ '') t''),
         b_params = setitem ''offset'' (PInt (max 0 (if intent = ''find_one'' then 0 else offset)))
                      (setitem ''limit'' (PInt (max 1 (if intent = ''find_one'' then 1 else limit))) params)\<rparr>)"

subsection \<open>Execution\<close>

text \<open>
  The result of a call: the exception that leaves the function (\<open>Inl\<close>, its text) or
  the envelope it returns, together with the statements that were handed to
  \<open>conn.execute\<close>, in order.
\<close>

type_synonym sql_result = "(string + pydict) \<times> string list"

definition result_env :: "built \<Rightarrow> pyval list \<Rightarrow> pyval option \<Rightarrow> pydict" where
  "result_env b rows tot =
     [(''type'', PStr ''sql''), (''sql'', PStr (b_sql b)), (''params'', PDict (b_params b)),
      (''rows'', PList rows),
      (''pagination'',
         (case tot of
            Some t \<Rightarrow> PDict [(''limit'', dict_get_or (b_params b) ''limit'' (PInt 0)),
                               (''offset'', dict_get_or (b_params b) ''offset'' (PInt 0)),
                               (''total'', t)]
          | None \<Rightarrow> PNone))]"

definition execute :: "database \<Rightarrow> built \<Rightarrow> sql_result" where
  "execute db b =
     (case (if truthy (b_count_sql b) then b_count_sql b else None) of
        Some cs \<Rightarrow>
          (case db_scalar db cs (b_params b) of
             Inl exc \<Rightarrow> (Inl exc, [cs])
           | Inr tot \<Rightarrow>
               (case db_rows db (b_sql b) (b_params b) of
                  Inl exc \<Rightarrow> (Inl exc, [cs, b_sql b])
                | Inr rows \<Rightarrow> (Inr (result_env b rows (Some tot)), [cs, b_sql b])))
      | None \<Rightarrow>
          (case db_rows db (b_sql b) (b_params b) of
             Inl exc \<Rightarrow> (Inl exc, [b_sql b])
           | Inr rows \<Rightarrow> (Inr (result_env b rows None), [b_sql b])))"

subsection \<open>The whole function\<close>

text \<open>
  What the function reaches outside itself: the connection string used when none is
  given, the connecting to a database (\<open>Inl\<close>: creating the engine or inspecting it
  raises), and the optional intent model (\<open>None\<close> when its import failed; a call of it
  gives a label with a confidence, or \<open>None\<close> when it raises).  The counter
  \<open>active_connections\<close> is incremented and, in a \<open>finally\<close>, decremented again around the
  execution; it is the same before and after the call and is left out.
\<close>

record sql_world =
  default_conn :: string
  connect :: "string \<Rightarrow> string + database"
  ml_predict_intent :: "(string \<Rightarrow> (string \<times> real) option) option"

definition ml_intent_of :: "sql_world \<Rightarrow> string \<Rightarrow> string option" where
  "ml_intent_of w qn =
     (case ml_predict_intent w of
        None \<Rightarrow> None
      | Some predict \<Rightarrow>
          (case predict qn of
             None \<Rightarrow> None
           | Some pc \<Rightarrow> if snd pc \<ge> 0.55 then Some (fst pc) else None))"

definition effective_intent :: "sql_world \<Rightarrow> string \<Rightarrow> string \<Rightarrow> string" where
  "effective_intent w qn intent =
     (if truthy (ml_intent_of w qn) then fmt (ml_intent_of w qn)
      else if intent \<noteq> [] then intent
      else infer_intent qn)"

definition run_sql :: "sql_world \<Rightarrow> string \<Rightarrow> string option \<Rightarrow> int \<Rightarrow> int \<Rightarrow> string \<Rightarrow> sql_result" where
  "run_sql w query_text connection_string limit offset intent0 =
     (let conn_str = or_else connection_string (default_conn w) in
      case connect w conn_str of
        Inl exc \<Rightarrow> (Inl exc, [])
      | Inr db \<Rightarrow>
          (let qn = normalize_tokens query_text;
               wp = infer_filters qn;
               intent = effective_intent w qn intent0
           in case detect_schema db of
                Inl exc \<Rightarrow> (Inl exc, [])
              | Inr m \<Rightarrow>
                  (case entity_guard qn (table_names db) entity_tables of
                     Some t \<Rightarrow> (Inr (missing_entity_env t), [])
                   | None \<Rightarrow>
                       (case resolve_placeholders (emp m) (fst wp) of
                          Inl env \<Rightarrow> (Inr env, [])
                        | Inr where1 \<Rightarrow> execute db (build_sql m qn where1 (snd wp) intent limit offset)))))"


subsection \<open>An example database\<close>

text \<open>
  A database of the simplified employees dialect without the optional columns, whose
  statements return no rows, and a world in which every connection string opens it and
  the intent model is not installed.  Used to instantiate the theorems below.
\<close>

definition sample_db :: database where
  "sample_db = \<lparr>db_tables = [(''employees'', [''emp_id'', ''full_name'', ''dept_id'', ''join_date'',
                                               ''position'', ''annual_salary'']),
                             (''departments'', [''dept_id'', ''dept_name'', ''manager_id''])],
                db_scalar = (\<lambda>s p. Inr (PInt 0)),
                db_rows = (\<lambda>s p. Inr [])\<rparr>"

definition sample_world :: sql_world where
  "sample_world = \<lparr>default_conn = ''sqlite:///example.db'', connect = (\<lambda>s. Inr sample_db),
     ml_predict_intent = None\<rparr>"

section \<open>Properties of \<open>_run_sql\<close>\<close>

subsection \<open>What \<open>re.search\<close> with \<open>\bw\b\<close> finds\<close>







subsection \<open>The entity guard\<close>







section \<open>Document search (\<open>_search_documents\<close>)\<close>

text \<open>
  A row of the join of \<open>chunks\<close> with \<open>documents\<close>.  The embedding is stored as the bytes
  of a float32 array; here it is the list of its numbers, as reals (the rounding of
  float arithmetic is not modelled), so that its length is what
  \<open>np.frombuffer(...).shape[0]\<close> gives.
\<close>

record chunk =
  ch_text :: string
  ch_vec :: "real list"
  ch_dim :: int
  ch_filename :: string
  ch_doc_type :: string

text \<open>
  What the function reaches outside itself: the ingestion database (\<open>None\<close>: the file
  does not exist; \<open>Inl\<close>: reading it raises) and the embedding model applied to the
  query (\<open>Inl\<close>: loading or running it raises).
\<close>

record doc_world =
  store :: "(string + chunk list) option"
  embed :: "string \<Rightarrow> string + real list"

definition dot :: "real list \<Rightarrow> real list \<Rightarrow> real" where
  "dot xs ys = sum_list (map (\<lambda>xy. fst xy * snd xy) (zip xs ys))"

text \<open>\<open>np.dot\<close> of two one-dimensional arrays raises a \<open>ValueError\<close> when their lengths differ.\<close>

definition np_dot :: "real list \<Rightarrow> real list \<Rightarrow> string + real" where
  "np_dot xs ys = (if length xs \<noteq> length ys then Inl ''shapes not aligned'' else Inr (dot xs ys))"

definition item :: "chunk \<Rightarrow> real \<Rightarrow> pydict" where
  "item c score = [(''text'', PStr (ch_text c)), (''filename'', PStr (ch_filename c)),
     (''doc_type'', PStr (ch_doc_type c)), (''score'', PFloat score)]"

text \<open>The loop over the rows: a row whose vector length is not its \<open>dim\<close> is skipped.\<close>

fun score_rows :: "real list \<Rightarrow> chunk list \<Rightarrow> string + (real \<times> pydict) list" where
  "score_rows q_vec [] = Inr []"
| "score_rows q_vec (c # cs) =
     (if int (length (ch_vec c)) \<noteq> ch_dim c then score_rows q_vec cs
      else (case np_dot (ch_vec c) q_vec of
              Inl exc \<Rightarrow> Inl exc
            | Inr score \<Rightarrow>
                (case score_rows q_vec cs of
                   Inl exc \<Rightarrow> Inl exc
                 | Inr results \<Rightarrow> Inr ((score, item c score) # results))))"

text \<open>
  \<open>results.sort(key=lambda x: x[0], reverse=True)\<close>: Python's sort is stable, also when
  reversed, so this is the stable sort by descending score.
\<close>

definition sort_desc :: "(real \<times> 'a) list \<Rightarrow> (real \<times> 'a) list" where
  "sort_desc xs = sort_key (\<lambda>x. - fst x) xs"

definition search_documents :: "doc_world \<Rightarrow> string \<Rightarrow> int \<Rightarrow> int \<Rightarrow> string + pydict" where
  "search_documents dw query_text top_k offset =
     (case store dw of
        None \<Rightarrow> Inr [(''type'', PStr ''document''), (''results'', PList [])]
      | Some stored \<Rightarrow>
          (case embed dw query_text of
             Inl exc \<Rightarrow> Inl exc
           | Inr q_vec \<Rightarrow>
               (case stored of
                  Inl exc \<Rightarrow> Inl exc
                | Inr rows \<Rightarrow>
                    (case score_rows q_vec rows of
                       Inl exc \<Rightarrow> Inl exc
                     | Inr results \<Rightarrow>
                         (let ranked = sort_desc results;
                              tot = int (length ranked);
                              start = max 0 offset;
                              end = start + max 1 top_k;
                              page = map snd (take (nat (end - start)) (drop (nat start) ranked))
                          in Inr [(''type'', PStr ''document''),
                                  (''results'', PList (map PDict page)),
                                  (''pagination'', PDict [(''limit'', PInt (max 1 top_k)),
                                                          (''offset'', PInt start),
                                                          (''total'', PInt tot)])])))))"

subsection \<open>Ranking\<close>

definition surviving :: "chunk list \<Rightarrow> chunk list" where
  "surviving rows = filter (\<lambda>c. int (length (ch_vec c)) = ch_dim c) rows"


lemma surviving_Cons:
  "surviving (c # cs) = (if int (length (ch_vec c)) = ch_dim c then c # surviving cs else surviving cs)"
  by (simp add: surviving_def)



lemma score_rows_misaligned:
  assumes "\<exists>c \<in> set (surviving rows). length (ch_vec c) \<noteq> length q_vec"
  shows "\<exists>exc. score_rows q_vec rows = Inl exc"
  using assms
proof (induction rows)
  case Nil
  then show ?case by (simp add: surviving_def)
next
  case (Cons a rows)
  show ?case
  proof (cases "int (length (ch_vec a)) = ch_dim a")
    case False
    with Cons.prems have "\<exists>c \<in> set (surviving rows). length (ch_vec c) \<noteq> length q_vec"
      by (simp add: surviving_Cons)
    from Cons.IH[OF this] False show ?thesis by simp
  next
    case True
    show ?thesis
    proof (cases "length (ch_vec a) = length q_vec")
      case False
      with True show ?thesis by (simp add: np_dot_def)
    next
      case eq: True
      with True Cons.prems have "\<exists>c \<in> set (surviving rows). length (ch_vec c) \<noteq> length q_vec"
        by (simp add: surviving_Cons)
      from Cons.IH[OF this] obtain exc where "score_rows q_vec rows = Inl exc" by blast
      with True eq show ?thesis by (simp add: np_dot_def)
    qed
  qed
qed






subsection \<open>An example store\<close>

text \<open>
  Four chunks against the query vector \<open>(1, 0)\<close>: scores 0, 1 and 0, and one chunk whose
  vector has three numbers where two are recorded.
\<close>

definition sample_chunks :: "chunk list" where
  "sample_chunks =
     [\<lparr>ch_text = ''a'', ch_vec = [0, 1], ch_dim = 2, ch_filename = ''f1'', ch_doc_type = ''pdf''\<rparr>,
      \<lparr>ch_text = ''b'', ch_vec = [1, 0], ch_dim = 2, ch_filename = ''f1'', ch_doc_type = ''pdf''\<rparr>,
      \<lparr>ch_text = ''c'', ch_vec = [1, 0, 0], ch_dim = 2, ch_filename = ''f2'', ch_doc_type = ''txt''\<rparr>,
      \<lparr>ch_text = ''d'', ch_vec = [0, 1], ch_dim = 2, ch_filename = ''f2'', ch_doc_type = ''txt''\<rparr>]"

definition sample_doc_world :: doc_world where
  "sample_doc_world = \<lparr>store = Some (Inr sample_chunks), embed = (\<lambda>q. Inr [1, 0])\<rparr>"




section \<open>The public entry point (\<open>process_query\<close>, \<open>recent_history\<close>)\<close>

subsection \<open>The cache key\<close>

text \<open>
  \<open>json.dumps({"q": ..., "cs": ..., "l": ...}, sort_keys=True)\<close> on ASCII text: the keys
  in alphabetical order, strings quoted with the escapes of the \<open>json\<close> module.  The
  offset and the two document paging arguments are not part of it.
\<close>

definition bslash :: char where
  "bslash = CHR 0x5C"

definition hex_digit :: "nat \<Rightarrow> char" where
  "hex_digit d = (if d < 10 then char_of (48 + d) else char_of (87 + d))"

definition json_escape_char :: "char \<Rightarrow> string" where
  "json_escape_char c =
     (if c = dq then [bslash, dq]
      else if c = bslash then [bslash, bslash]
      else if code c = 10 then [bslash, CHR ''n'']
      else if code c = 13 then [bslash, CHR ''r'']
      else if code c = 9 then [bslash, CHR ''t'']
      else if code c = 8 then [bslash, CHR ''b'']
      else if code c = 12 then [bslash, CHR ''f'']
      else if code c < 32
        then [bslash, CHR ''u'', CHR ''0'', CHR ''0'', hex_digit (code c div 16), hex_digit (code c mod 16)]
      else [c])"

definition json_string :: "string \<Rightarrow> string" where
  "json_string s = [dq] @ concat (map json_escape_char s) @ [dq]"

definition show_int :: "int \<Rightarrow> string" where
  "show_int i = (if i < 0 then ''-'' @ show_nat (nat (- i)) else show_nat (nat i))"

definition cache_key :: "string \<Rightarrow> string option \<Rightarrow> int \<Rightarrow> string" where
  "cache_key user_query connection_string limit =
     ''{'' @ [dq] @ ''cs'' @ [dq] @ '': ''
       @ (case connection_string of None \<Rightarrow> ''null'' | Some cs \<Rightarrow> json_string cs)
       @ '', '' @ [dq] @ ''l'' @ [dq] @ '': '' @ show_int limit
       @ '', '' @ [dq] @ ''q'' @ [dq] @ '': '' @ json_string user_query @ ''}''"

subsection \<open>The state of the module and the world around it\<close>

text \<open>
  The module-level variables \<open>_cache\<close> (an \<open>LRUCache\<close> of capacity 100), \<open>_history\<close> and
  \<open>_metrics\<close>.
\<close>

record engine_state =
  cache :: "(string, pydict) lru_cache"
  history :: "pydict list"
  metrics :: metrics

definition engine_init :: engine_state where
  "engine_init = \<lparr>cache = lru_new 100, history = [], metrics = metrics_init\<rparr>"

record world =
  sql_side :: sql_world
  doc_side :: doc_world

definition merge_hybrid :: "pydict \<Rightarrow> pydict \<Rightarrow> pydict" where
  "merge_hybrid sql_res doc_res =
     [(''type'', PStr ''hybrid''), (''sql'', PDict sql_res), (''documents'', PDict doc_res)]"

text \<open>\<open>res or default\<close> for a result that is a dictionary or \<open>None\<close>.\<close>

definition dict_or :: "pydict option \<Rightarrow> pydict \<Rightarrow> pydict" where
  "dict_or res dflt = (case res of None \<Rightarrow> dflt | Some d \<Rightarrow> if d \<noteq> [] then d else dflt)"

definition metrics_entry :: "real \<Rightarrow> string \<Rightarrow> pyval" where
  "metrics_entry elapsed outcome = PDict [(''elapsed_sec'', PFloat elapsed), (''cache'', PStr outcome)]"

definition history_entry :: "string \<Rightarrow> real \<Rightarrow> pyval \<Rightarrow> string \<Rightarrow> pydict" where
  "history_entry q elapsed ty outcome =
     [(''q'', PStr q), (''time'', PFloat elapsed), (''type'', ty), (''cache'', PStr outcome)]"

text \<open>
  The two guarded calls of the miss path.  An exception of \<open>_run_sql\<close> or
  \<open>_search_documents\<close> becomes an envelope with its text.  \<open>_with_active_query\<close>
  increments \<open>active_queries\<close> and decrements it again in a \<open>finally\<close>, so the counter is
  the same after the call and is left out here.
\<close>

definition sql_part :: "world \<Rightarrow> string \<Rightarrow> string option \<Rightarrow> int \<Rightarrow> int \<Rightarrow> pydict" where
  "sql_part w user_query connection_string limit offset =
     (case fst (run_sql (sql_side w) user_query connection_string limit offset
                  (infer_intent (normalize_tokens user_query))) of
        Inl exc \<Rightarrow> [(''type'', PStr ''sql''), (''error'', PStr exc), (''rows'', PList [])]
      | Inr env \<Rightarrow> env)"

definition doc_part :: "world \<Rightarrow> string \<Rightarrow> int \<Rightarrow> int \<Rightarrow> pydict" where
  "doc_part w user_query doc_limit doc_offset =
     (case search_documents (doc_side w) user_query doc_limit doc_offset of
        Inl exc \<Rightarrow> [(''type'', PStr ''document''), (''error'', PStr exc), (''results'', PList [])]
      | Inr env \<Rightarrow> env)"

text \<open>The envelope computed on a miss, before the metrics are attached.\<close>

definition compute_final ::
    "world \<Rightarrow> string \<Rightarrow> string option \<Rightarrow> int \<Rightarrow> int \<Rightarrow> int \<Rightarrow> int \<Rightarrow> pydict" where
  "compute_final w user_query connection_string limit offset doc_limit doc_offset =
     (let qtype = classify user_query;
          sql_res = (if qtype = ''sql'' \<or> qtype = ''hybrid''
                     then Some (sql_part w user_query connection_string limit offset) else None);
          doc_res = (if qtype = ''document'' \<or> qtype = ''hybrid''
                     then Some (doc_part w user_query doc_limit doc_offset) else None)
      in if qtype = ''sql'' then dict_or sql_res [(''type'', PStr ''sql''), (''rows'', PList [])]
         else if qtype = ''document''
           then dict_or doc_res [(''type'', PStr ''document''), (''results'', PList [])]
         else merge_hybrid (dict_or sql_res [(''type'', PStr ''sql''), (''rows'', PList [])])
                           (dict_or doc_res [(''type'', PStr ''document''), (''results'', PList [])]))"

text \<open>
  \<open>process_query\<close>: the response and the state afterwards.  \<open>elapsed\<close> is the time that
  the call measures with \<open>time.time()\<close>.
\<close>

definition process_query ::
    "world \<Rightarrow> real \<Rightarrow> string \<Rightarrow> string option \<Rightarrow> int \<Rightarrow> int \<Rightarrow> int \<Rightarrow> int \<Rightarrow> engine_state
       \<Rightarrow> pydict \<times> engine_state" where
  "process_query w elapsed user_query connection_string limit offset doc_limit doc_offset s =
     (let m = (metrics s)\<lparr>total_queries := total_queries (metrics s) + 1\<rparr>;
          key = cache_key user_query connection_string limit;
          got = lru_get (cache s) key
      in case fst got of
           Some cached \<Rightarrow>
             (let result = setitem ''metrics'' (metrics_entry elapsed ''hit'') cached;
                  m = record_time elapsed (m\<lparr>cache_hits := cache_hits m + 1\<rparr>);
                  h = history s @ [history_entry user_query elapsed (dict_get_or cached ''type'' PNone) ''hit'']
              in (result, \<lparr>cache = snd got, history = h, metrics = m\<rparr>))
         | None \<Rightarrow>
             (let final = compute_final w user_query connection_string limit offset doc_limit doc_offset;
                  final_with_metrics = setitem ''metrics'' (metrics_entry elapsed ''miss'') final;
                  m = record_time elapsed (m\<lparr>cache_misses := cache_misses m + 1\<rparr>);
                  c = lru_set (snd got) key final;
                  h = history s @ [history_entry user_query elapsed
                                     (dict_get_or final_with_metrics ''type'' PNone) ''miss''];
                  h = (if length h > 100 then keep_last 100 h else h)
              in (final_with_metrics, \<lparr>cache = c, history = h, metrics = m\<rparr>)))"

text \<open>\<open>xs[i:]\<close>, and \<open>recent_history\<close>, which is \<open>list(_history[-limit:])[::-1]\<close>.\<close>

definition slice_from :: "int \<Rightarrow> 'a list \<Rightarrow> 'a list" where
  "slice_from i xs = (if i < 0 then drop (nat (int (length xs) + i)) xs else drop (nat i) xs)"

definition recent_history :: "int \<Rightarrow> engine_state \<Rightarrow> pydict list" where
  "recent_history limit s = rev (slice_from (- limit) (history s))"

text \<open>The same call made \<open>n\<close> times in a row.\<close>

fun repeat_query ::
    "nat \<Rightarrow> world \<Rightarrow> real \<Rightarrow> string \<Rightarrow> string option \<Rightarrow> int \<Rightarrow> int \<Rightarrow> int \<Rightarrow> int \<Rightarrow> engine_state
       \<Rightarrow> engine_state" where
  "repeat_query 0 w elapsed q cs l off dl doff s = s"
| "repeat_query (Suc n) w elapsed q cs l off dl doff s =
     repeat_query n w elapsed q cs l off dl doff (snd (process_query w elapsed q cs l off dl doff s))"

subsection \<open>Looking up what was just stored\<close>

lemma map_of_update_other:
  "k' \<noteq> k \<Longrightarrow> map_of (map (\<lambda>p. if fst p = k then (k, v) else p) es) k' = map_of es k'"
  by (induction es) auto

lemma map_of_update_same:
  "k \<in> fst ` set es \<Longrightarrow> map_of (map (\<lambda>p. if fst p = k then (k, v) else p) es) k = Some v"
  by (induction es) auto

lemma map_of_setitem: "map_of (setitem k v es) k' = (if k' = k then Some v else map_of es k')"
proof (cases "k \<in> set (keys_of es)")
  case True
  then show ?thesis
    by (simp add: setitem_def keys_of_def map_of_update_other map_of_update_same)
next
  case False
  then have "map_of es k = None"
    by (simp add: keys_of_def map_of_eq_None_iff)
  with False show ?thesis
    by (auto simp: setitem_def map_add_def split: option.splits)
qed

lemma lru_get_is_map_of: "fst (lru_get c k) = map_of (entries c) k"
proof (cases "k \<in> set (keys_of (entries c))")
  case True
  then show ?thesis by (rule lru_get_value)
next
  case False
  then have "map_of (entries c) k = None"
    by (simp add: keys_of_def map_of_eq_None_iff)
  with False show ?thesis by (simp add: lru_get_def)
qed

lemma map_of_after_get: "map_of (entries (snd (lru_get c k))) k = map_of (entries c) k"
proof (cases "k \<in> set (keys_of (entries c))")
  case False
  then show ?thesis by (simp add: lru_get_def)
next
  case True
  then obtain v where v: "map_of (entries c) k = Some v"
    by (metis keys_of_def map_of_eq_None_iff not_Some_eq set_map)
  have "map_of (filter (\<lambda>p. fst p \<noteq> k) (entries c)) k = None"
    by (simp add: map_of_eq_None_iff image_iff)
  then show ?thesis using True v
    by (simp add: lru_get_def Let_def move_to_end_def map_add_def)
qed

lemma hd_filter_sat: "filter P xs \<noteq> [] \<Longrightarrow> P (hd (filter P xs))"
  by (induction xs) (auto split: if_splits)

lemma map_of_tl:
  assumes "hd (keys_of es) \<noteq> k" "es \<noteq> []"
  shows "map_of (tl es) k = map_of es k"
  using assms by (cases es) (auto simp: keys_of_def)

lemma stored_is_found:
  assumes "1 \<le> capacity c"
  shows "map_of (entries (lru_set c k v)) k = Some v"
proof -
  define es1 where "es1 = (if k \<in> set (keys_of (entries c)) then move_to_end k (entries c) else entries c)"
  define es2 where "es2 = setitem k v es1"
  have ks: "keys_of es2 = filter (\<lambda>x. x \<noteq> k) (keys_of (entries c)) @ [k]"
  proof (cases "k \<in> set (keys_of (entries c))")
    case True
    then show ?thesis
      by (simp add: es2_def es1_def keys_setitem keys_move_to_end)
  next
    case False
    then have "filter (\<lambda>x. x \<noteq> k) (keys_of (entries c)) = keys_of (entries c)"
      by (auto simp: filter_id_conv)
    with False show ?thesis
      by (simp add: es2_def es1_def keys_setitem)
  qed
  have m2: "map_of es2 k = Some v"
    by (simp add: es2_def map_of_setitem)
  have e: "entries (lru_set c k v) = (if int (length es2) > capacity c then popitem_first es2 else es2)"
    by (simp add: lru_set_def es2_def es1_def Let_def)
  show ?thesis
  proof (cases "int (length es2) > capacity c")
    case False
    with e m2 show ?thesis by simp
  next
    case True
    with assms have l2: "2 \<le> length es2" by simp
    then have ne: "es2 \<noteq> []" by auto
    from l2 have "2 \<le> length (keys_of es2)" by (simp add: length_keys_of)
    then have "filter (\<lambda>x. x \<noteq> k) (keys_of (entries c)) \<noteq> []"
      unfolding ks by auto
    then have "hd (keys_of es2) \<noteq> k"
      unfolding ks using hd_filter_sat[of "\<lambda>x. x \<noteq> k" "keys_of (entries c)"]
      by (simp add: hd_append2)
    from map_of_tl[OF this ne] m2 have "map_of (tl es2) k = Some v" by simp
    moreover have "popitem_first es2 = tl es2"
      by (cases es2) (simp_all add: popitem_first_def)
    ultimately show ?thesis using e True by simp
  qed
qed


subsection \<open>The two paths of \<open>process_query\<close>\<close>

lemma process_query_hit:
  assumes "map_of (entries (cache s)) (cache_key q cs l) = Some cached"
  shows "fst (process_query w e q cs l off dl doff s) = setitem ''metrics'' (metrics_entry e ''hit'') cached"
    and "cache (snd (process_query w e q cs l off dl doff s)) = snd (lru_get (cache s) (cache_key q cs l))"
    and "history (snd (process_query w e q cs l off dl doff s))
           = history s @ [history_entry q e (dict_get_or cached ''type'' PNone) ''hit'']"
  using assms by (simp_all add: process_query_def Let_def lru_get_is_map_of)

lemma process_query_miss:
  assumes "map_of (entries (cache s)) (cache_key q cs l) = None"
  shows "fst (process_query w e q cs l off dl doff s)
           = setitem ''metrics'' (metrics_entry e ''miss'') (compute_final w q cs l off dl doff)"
    and "cache (snd (process_query w e q cs l off dl doff s))
           = lru_set (cache s) (cache_key q cs l) (compute_final w q cs l off dl doff)"
proof -
  from assms have "cache_key q cs l \<notin> set (keys_of (entries (cache s)))"
    by (simp add: keys_of_def map_of_eq_None_iff)
  then have g: "lru_get (cache s) (cache_key q cs l) = (None, cache s)"
    by (simp add: lru_get_def)
  show "fst (process_query w e q cs l off dl doff s)
           = setitem ''metrics'' (metrics_entry e ''miss'') (compute_final w q cs l off dl doff)"
    by (simp add: process_query_def Let_def g)
  show "cache (snd (process_query w e q cs l off dl doff s))
           = lru_set (cache s) (cache_key q cs l) (compute_final w q cs l off dl doff)"
    by (simp add: process_query_def Let_def g)
qed

lemma capacity_after_query:
  "capacity (cache (snd (process_query w e q cs l off dl doff s))) = capacity (cache s)"
proof (cases "map_of (entries (cache s)) (cache_key q cs l)")
  case None
  then show ?thesis by (simp add: process_query_miss)
next
  case (Some cached)
  then show ?thesis by (simp add: process_query_hit)
qed

text \<open>
  After any call the cache holds, under the key of the call, the envelope that the call
  returned (up to its \<open>metrics\<close> entry).
\<close>

lemma cached_after_query:
  assumes "1 \<le> capacity (cache s)"
  shows "\<exists>final outcome.
           fst (process_query w e q cs l off dl doff s) = setitem ''metrics'' (metrics_entry e outcome) final
         \<and> map_of (entries (cache (snd (process_query w e q cs l off dl doff s)))) (cache_key q cs l) = Some final
         \<and> (outcome = ''miss'' \<longleftrightarrow> map_of (entries (cache s)) (cache_key q cs l) = None)
         \<and> (outcome = ''hit'' \<or> outcome = ''miss'')"
proof (cases "map_of (entries (cache s)) (cache_key q cs l)")
  case None
  have "map_of (entries (cache (snd (process_query w e q cs l off dl doff s)))) (cache_key q cs l)
          = Some (compute_final w q cs l off dl doff)"
    by (simp add: process_query_miss(2)[OF None] stored_is_found[OF assms])
  with process_query_miss(1)[OF None] None show ?thesis by blast
next
  case (Some cached)
  have "map_of (entries (cache (snd (process_query w e q cs l off dl doff s)))) (cache_key q cs l)
          = Some cached"
    by (simp add: process_query_hit(2)[OF Some] map_of_after_get Some)
  moreover have "''hit'' \<noteq> ''miss''" by simp
  ultimately show ?thesis
    using process_query_hit(1)[OF Some] Some by (metis option.distinct(1))
qed

lemma dict_get_setitem: "dict_get (setitem k v d) k' = (if k' = k then Some v else dict_get d k')"
  by (simp add: dict_get_def map_of_setitem)


subsection \<open>Repeated calls\<close>

text \<open>
  Claim C2.  Let the key of the call not be in the cache (\<open>LRUCache.get\<close> returns
  \<open>None\<close> for it), as in a fresh engine.  Two calls of \<open>process_query\<close> in succession
  with the same arguments then give responses that are the same envelope with different
  \<open>metrics\<close>: the first carries \<open>cache = miss\<close>, the second \<open>cache = hit\<close>, and every other
  key, \<open>rows\<close> and \<open>results\<close> among them, has the same value in both.  This holds whatever
  the database, the document store and the clock do between the calls.
\<close>

theorem same_call_twice_miss_then_hit:
  assumes cap: "capacity (cache s) = 100"
    and cold: "fst (lru_get (cache s) (cache_key q cs l)) = None"
  shows "\<exists>final.
           fst (process_query w1 e1 q cs l off dl doff s) = setitem ''metrics'' (metrics_entry e1 ''miss'') final
         \<and> fst (process_query w2 e2 q cs l off dl doff (snd (process_query w1 e1 q cs l off dl doff s)))
             = setitem ''metrics'' (metrics_entry e2 ''hit'') final
         \<and> dict_get (fst (process_query w1 e1 q cs l off dl doff s)) ''metrics''
             = Some (PDict [(''elapsed_sec'', PFloat e1), (''cache'', PStr ''miss'')])
         \<and> dict_get (fst (process_query w2 e2 q cs l off dl doff (snd (process_query w1 e1 q cs l off dl doff s)))) ''metrics''
             = Some (PDict [(''elapsed_sec'', PFloat e2), (''cache'', PStr ''hit'')])
         \<and> dict_get (fst (process_query w2 e2 q cs l off dl doff (snd (process_query w1 e1 q cs l off dl doff s)))) ''rows''
             = dict_get (fst (process_query w1 e1 q cs l off dl doff s)) ''rows''
         \<and> dict_get (fst (process_query w2 e2 q cs l off dl doff (snd (process_query w1 e1 q cs l off dl doff s)))) ''results''
             = dict_get (fst (process_query w1 e1 q cs l off dl doff s)) ''results''
         \<and> (\<forall>k. k \<noteq> ''metrics'' \<longrightarrow>
               dict_get (fst (process_query w2 e2 q cs l off dl doff (snd (process_query w1 e1 q cs l off dl doff s)))) k
               = dict_get (fst (process_query w1 e1 q cs l off dl doff s)) k)"
proof -
  let ?key = "cache_key q cs l"
  let ?final = "compute_final w1 q cs l off dl doff"
  let ?s1 = "snd (process_query w1 e1 q cs l off dl doff s)"
  from cold have none: "map_of (entries (cache s)) ?key = None"
    by (simp add: lru_get_is_map_of)
  have r1: "fst (process_query w1 e1 q cs l off dl doff s) = setitem ''metrics'' (metrics_entry e1 ''miss'') ?final"
    by (rule process_query_miss(1)[OF none])
  have "map_of (entries (cache ?s1)) ?key = Some ?final"
    using cap by (simp add: process_query_miss(2)[OF none] stored_is_found)
  then have r2: "fst (process_query w2 e2 q cs l off dl doff ?s1) = setitem ''metrics'' (metrics_entry e2 ''hit'') ?final"
    by (rule process_query_hit(1))
  show ?thesis
    unfolding r1 r2 by (rule exI[of _ ?final]) (simp add: dict_get_setitem metrics_entry_def)
qed

text \<open>The theorem at the fresh engine, for any query.\<close>

theorem same_call_twice_miss_then_hit_witness:
  "capacity (cache engine_init) = 100
   \<and> fst (lru_get (cache engine_init) (cache_key ''how many employees'' None 50)) = None
   \<and> (\<exists>final.
         fst (process_query \<lparr>sql_side = sample_world, doc_side = sample_doc_world\<rparr> 1
                ''how many employees'' None 50 0 8 0 engine_init)
           = setitem ''metrics'' (metrics_entry 1 ''miss'') final
       \<and> fst (process_query \<lparr>sql_side = sample_world, doc_side = sample_doc_world\<rparr> 2
                ''how many employees'' None 50 0 8 0
                (snd (process_query \<lparr>sql_side = sample_world, doc_side = sample_doc_world\<rparr> 1
                        ''how many employees'' None 50 0 8 0 engine_init)))
           = setitem ''metrics'' (metrics_entry 2 ''hit'') final)"
proof -
  have h1: "capacity (cache engine_init) = 100"
    by (simp add: engine_init_def lru_new_def)
  have h2: "fst (lru_get (cache engine_init) (cache_key ''how many employees'' None 50)) = None"
    by (simp add: engine_init_def lru_new_def lru_get_def keys_of_def)
  from same_call_twice_miss_then_hit[OF h1 h2,
      of "\<lparr>sql_side = sample_world, doc_side = sample_doc_world\<rparr>" 1 0 8 0
         "\<lparr>sql_side = sample_world, doc_side = sample_doc_world\<rparr>" 2]
  show ?thesis using h1 h2 by blast
qed

text \<open>
  Claim C4.  The cache key is computed from the query text, the connection string and
  the row limit alone.  So after a call, a second call with the same three values is a
  cache hit, whatever its offset and document paging arguments are (and whatever the
  database holds by then): it returns the envelope of the first call, with every key
  but \<open>metrics\<close> unchanged.
\<close>

theorem paging_arguments_not_in_key:
  assumes cap: "capacity (cache s) = 100"
  shows "\<exists>final.
           map_of (entries (cache (snd (process_query w1 e1 q cs l off1 dl1 doff1 s)))) (cache_key q cs l)
             = Some final
         \<and> fst (process_query w2 e2 q cs l off2 dl2 doff2 (snd (process_query w1 e1 q cs l off1 dl1 doff1 s)))
             = setitem ''metrics'' (metrics_entry e2 ''hit'') final
         \<and> dict_get (fst (process_query w2 e2 q cs l off2 dl2 doff2 (snd (process_query w1 e1 q cs l off1 dl1 doff1 s)))) ''metrics''
             = Some (PDict [(''elapsed_sec'', PFloat e2), (''cache'', PStr ''hit'')])
         \<and> (\<forall>k. k \<noteq> ''metrics'' \<longrightarrow>
               dict_get (fst (process_query w2 e2 q cs l off2 dl2 doff2 (snd (process_query w1 e1 q cs l off1 dl1 doff1 s)))) k
               = dict_get (fst (process_query w1 e1 q cs l off1 dl1 doff1 s)) k)"
proof -
  let ?s1 = "snd (process_query w1 e1 q cs l off1 dl1 doff1 s)"
  from cap have "1 \<le> capacity (cache s)" by simp
  from cached_after_query[OF this, of w1 e1 q cs l off1 dl1 doff1]
  obtain final outcome where
    r1: "fst (process_query w1 e1 q cs l off1 dl1 doff1 s) = setitem ''metrics'' (metrics_entry e1 outcome) final"
    and c1: "map_of (entries (cache ?s1)) (cache_key q cs l) = Some final"
    by blast
  have r2: "fst (process_query w2 e2 q cs l off2 dl2 doff2 ?s1) = setitem ''metrics'' (metrics_entry e2 ''hit'') final"
    using c1 by (rule process_query_hit(1))
  show ?thesis
    unfolding r1 r2 using c1 by (intro exI[of _ final]) (simp add: dict_get_setitem metrics_entry_def)
qed

text \<open>The theorem at the fresh engine: the second call asks for another page.\<close>

theorem paging_arguments_not_in_key_witness:
  "capacity (cache engine_init) = 100
   \<and> (\<exists>final.
         fst (process_query \<lparr>sql_side = sample_world, doc_side = sample_doc_world\<rparr> 2
                ''list employees'' None 10 10 8 8
                (snd (process_query \<lparr>sql_side = sample_world, doc_side = sample_doc_world\<rparr> 1
                        ''list employees'' None 10 0 8 0 engine_init)))
           = setitem ''metrics'' (metrics_entry 2 ''hit'') final)"
proof -
  have h1: "capacity (cache engine_init) = 100"
    by (simp add: engine_init_def lru_new_def)
  from paging_arguments_not_in_key[OF h1,
      of "\<lparr>sql_side = sample_world, doc_side = sample_doc_world\<rparr>" 1 "''list employees''" None 10 0 8 0
         "\<lparr>sql_side = sample_world, doc_side = sample_doc_world\<rparr>" 2 10 8 8]
  show ?thesis using h1 by blast
qed

subsection \<open>The history\<close>

lemma hits_grow_history:
  assumes "1 \<le> capacity (cache s)" "map_of (entries (cache s)) (cache_key q cs l) = Some cached"
  shows "length (history (repeat_query n w e q cs l off dl doff s)) = length (history s) + n"
  using assms
proof (induction n arbitrary: s)
  case 0
  then show ?case by simp
next
  case (Suc n)
  let ?s1 = "snd (process_query w e q cs l off dl doff s)"
  have c: "1 \<le> capacity (cache ?s1)"
    using Suc.prems(1) by (simp add: capacity_after_query)
  have m: "map_of (entries (cache ?s1)) (cache_key q cs l) = Some cached"
    by (simp add: process_query_hit(2)[OF Suc.prems(2)] map_of_after_get Suc.prems(2))
  have h: "length (history ?s1) = length (history s) + 1"
    by (simp add: process_query_hit(3)[OF Suc.prems(2)])
  from Suc.IH[OF c m] h show ?case by simp
qed

lemma first_call_on_fresh_engine:
  "length (history (snd (process_query w e q cs l off dl doff engine_init))) = 1"
  "capacity (cache (snd (process_query w e q cs l off dl doff engine_init))) = 100"
  "map_of (entries (cache (snd (process_query w e q cs l off dl doff engine_init)))) (cache_key q cs l)
     = Some (compute_final w q cs l off dl doff)"
proof -
  have none: "map_of (entries (cache engine_init)) (cache_key q cs l) = None"
    by (simp add: engine_init_def lru_new_def)
  then have g: "lru_get (cache engine_init) (cache_key q cs l) = (None, cache engine_init)"
    by (simp add: lru_get_def keys_of_def engine_init_def lru_new_def)
  show "length (history (snd (process_query w e q cs l off dl doff engine_init))) = 1"
    by (simp add: process_query_def Let_def g) (simp add: engine_init_def)
  show "capacity (cache (snd (process_query w e q cs l off dl doff engine_init))) = 100"
    by (simp add: capacity_after_query) (simp add: engine_init_def lru_new_def)
  show "map_of (entries (cache (snd (process_query w e q cs l off dl doff engine_init)))) (cache_key q cs l)
     = Some (compute_final w q cs l off dl doff)"
  proof -
    have "1 \<le> capacity (cache engine_init)"
      by (simp add: engine_init_def lru_new_def)
    then show ?thesis
      by (simp only: process_query_miss(2)[OF none] stored_is_found)
  qed
qed

text \<open>The miss path trims the history to its last 100 entries.\<close>

lemma miss_trims_history:
  assumes "map_of (entries (cache s)) (cache_key q cs l) = None"
  shows "length (history (snd (process_query w e q cs l off dl doff s))) \<le> 100"
proof -
  from assms have "cache_key q cs l \<notin> set (keys_of (entries (cache s)))"
    by (simp add: keys_of_def map_of_eq_None_iff)
  then have g: "lru_get (cache s) (cache_key q cs l) = (None, cache s)"
    by (simp add: lru_get_def)
  show ?thesis
    by (simp add: process_query_def Let_def g keep_last_def)
qed

text \<open>
  Claim C9 fails on the cache-hit path, which appends to the history and returns
  without trimming it.  On a fresh engine the same call made \<open>n + 1\<close> times (one miss,
  then \<open>n\<close> hits) leaves \<open>n + 1\<close> entries: 101 entries after 101 calls.  Also,
  \<open>recent_history(0)\<close> returns the whole history, not at most 0 entries.
\<close>

theorem history_not_capped_on_hits:
  "length (history (repeat_query (Suc n) w e q cs l off dl doff engine_init)) = Suc n
   \<and> length (history (repeat_query 101 w e q cs l off dl doff engine_init)) = 101
   \<and> recent_history 0 s = rev (history s)"
proof -
  have a: "length (history (repeat_query (Suc n) w e q cs l off dl doff engine_init)) = Suc n" for n
    using hits_grow_history[of "snd (process_query w e q cs l off dl doff engine_init)" q cs l
        "compute_final w q cs l off dl doff" n w e off dl doff]
    by (simp add: first_call_on_fresh_engine)
  have "(101 :: nat) = Suc 100" by simp
  then have b: "length (history (repeat_query 101 w e q cs l off dl doff engine_init)) = 101"
    using a[of 100] by metis
  have c: "recent_history 0 s = rev (history s)"
    by (simp add: recent_history_def slice_from_def)
  from a b c show ?thesis by blast
qed

end
